theory Spec2Isabelle
  imports Main "HOL-Library.Sublist"
begin

section \<open>Python values\<close>

text \<open>
  A Python \<open>str\<close> is a sequence of Unicode code points, a \<open>bytes\<close> object a sequence
  of 8-bit values. String literals of the source are written \<open>lit ''...''\<close>.
\<close>

type_synonym pystr = "nat list"
type_synonym bytes = "char list"

definition lit :: "string \<Rightarrow> pystr" where
  "lit s = map of_char s"

text \<open>
  The built-in objects that a datagram can unpickle to. The receive loop unpacks the
  object, compares the first field with string literals, calls \<open>.decode\<close> on the second
  and hands the others to \<open>crypto_utils\<close>.
\<close>

datatype pyval =
    PNone
  | PBool bool
  | PInt int
  | PStr pystr
  | PBytes bytes
  | PTuple "pyval list"
  | PList "pyval list"

text \<open>
  Exceptions. The handlers of \<open>listen_for_messages\<close> tell \<open>OSError\<close> (with its
  \<open>errno\<close>, which may be \<open>None\<close>) from every other subclass of \<open>Exception\<close>.
\<close>

datatype exn =
    OSError "nat option"
  | ValueError
  | TypeError
  | AttributeError
  | UnicodeDecodeError
  | UnicodeEncodeError
  | OtherException string

fun is_OSError :: "exn \<Rightarrow> bool" where
  "is_OSError (OSError _) = True"
| "is_OSError _ = False"

text \<open>\<open>errno.EBADF\<close>\<close>

definition EBADF :: nat where
  "EBADF = 9"

text \<open>
  What \<open>print\<close> wrote. The log lines that format an arbitrary object
  (\<open>f"Unknown message type: {message_type}"\<close>, \<open>f"Error receiving message: {e}"\<close>,
  \<open>f"Error in discovery loop: {e}"\<close>, \<open>f"Error sending payload: {e}"\<close>) are kept as
  the object they format.
\<close>

datatype out =
    Print pystr
  | PrintUnknownType pyval
  | PrintErrorReceiving exn
  | PrintErrorDiscovery exn
  | PrintErrorSending exn

subsection \<open>\<open>str.encode('utf-8')\<close> and \<open>bytes.decode('utf-8')\<close>\<close>

text \<open>
  The range of the byte that follows the lead byte \<open>b0\<close> of a three-byte or four-byte
  sequence: narrower than a continuation byte after \<open>E0\<close> and \<open>F0\<close> (no overlong forms),
  after \<open>ED\<close> (no surrogates) and after \<open>F4\<close> (nothing above \<open>U+10FFFF\<close>).
\<close>

definition second_from :: "nat \<Rightarrow> nat" where
  "second_from b0 = (if b0 = 224 then 160 else if b0 = 240 then 144 else 128)"

definition second_below :: "nat \<Rightarrow> nat" where
  "second_below b0 = (if b0 = 237 then 160 else if b0 = 244 then 144 else 192)"

definition cont :: "nat \<Rightarrow> bool" where
  "cont b \<longleftrightarrow> 128 \<le> b \<and> b < 192"

fun decode_points :: "nat list \<Rightarrow> pystr option" where
  "decode_points [] = Some []"
| "decode_points (b0 # bs) =
     (if b0 < 128 then map_option ((#) b0) (decode_points bs)
      else if 194 \<le> b0 \<and> b0 \<le> 223 then
        (case bs of
           b1 # r \<Rightarrow>
             if cont b1
             then map_option ((#) ((b0 - 192) * 64 + (b1 - 128))) (decode_points r)
             else None
         | _ \<Rightarrow> None)
      else if 224 \<le> b0 \<and> b0 \<le> 239 then
        (case bs of
           b1 # b2 # r \<Rightarrow>
             if second_from b0 \<le> b1 \<and> b1 < second_below b0 \<and> cont b2
             then map_option ((#) ((b0 - 224) * 4096 + (b1 - 128) * 64 + (b2 - 128)))
                    (decode_points r)
             else None
         | _ \<Rightarrow> None)
      else if 240 \<le> b0 \<and> b0 \<le> 244 then
        (case bs of
           b1 # b2 # b3 # r \<Rightarrow>
             if second_from b0 \<le> b1 \<and> b1 < second_below b0 \<and> cont b2 \<and> cont b3
             then map_option
                    ((#) ((b0 - 240) * 262144 + (b1 - 128) * 4096 + (b2 - 128) * 64 + (b3 - 128)))
                    (decode_points r)
             else None
         | _ \<Rightarrow> None)
      else None)"

text \<open>\<open>b.decode('utf-8')\<close>: strict, so ill-formed input raises \<open>UnicodeDecodeError\<close>.\<close>

definition utf8_decode :: "bytes \<Rightarrow> exn + pystr" where
  "utf8_decode b =
     (case decode_points (map of_char b) of
        None \<Rightarrow> Inl UnicodeDecodeError
      | Some s \<Rightarrow> Inr s)"

definition encode_point :: "nat \<Rightarrow> nat list option" where
  "encode_point c =
     (if c < 128 then Some [c]
      else if c < 2048 then Some [192 + c div 64, 128 + c mod 64]
      else if 55296 \<le> c \<and> c < 57344 then None
      else if c < 65536 then Some [224 + c div 4096, 128 + c div 64 mod 64, 128 + c mod 64]
      else if c < 1114112 then
        Some [240 + c div 262144, 128 + c div 4096 mod 64, 128 + c div 64 mod 64, 128 + c mod 64]
      else None)"

fun encode_points :: "pystr \<Rightarrow> nat list option" where
  "encode_points [] = Some []"
| "encode_points (c # cs) =
     (case encode_point c of
        None \<Rightarrow> None
      | Some bs \<Rightarrow> map_option ((@) bs) (encode_points cs))"

text \<open>\<open>s.encode('utf-8')\<close>: a lone surrogate raises \<open>UnicodeEncodeError\<close>.\<close>

definition utf8_encode :: "pystr \<Rightarrow> exn + bytes" where
  "utf8_encode s =
     (case encode_points s of
        None \<Rightarrow> Inl UnicodeEncodeError
      | Some bs \<Rightarrow> Inr (map char_of bs))"

text \<open>
  \<open>s.split(sep)[0]\<close> for a non-empty \<open>sep\<close>: the text before the first occurrence of
  \<open>sep\<close>, all of \<open>s\<close> when \<open>sep\<close> does not occur.
\<close>

fun split_0 :: "pystr \<Rightarrow> pystr \<Rightarrow> pystr" where
  "split_0 sep [] = []"
| "split_0 sep (c # cs) = (if prefix sep (c # cs) then [] else c # split_0 sep cs)"

section \<open>The collaborators\<close>

text \<open>
  Modelled from the spec: \<open>crypto_utils\<close> is imported by \<open>client.py\<close> and is not among
  the source files. Its functions are parameters of the model, with the failure modes
  that the spec's Crypto Provider contract gives them: decryption may fail, verification
  returns a truth value and never raises, encryption does not fail. The results of
  \<open>unpack_data\<close> are typed by their use in the source: a \<open>str\<close> where \<open>startswith\<close> and
  \<open>split\<close> are called on it, and a key (of any type \<open>'k\<close>) with \<open>isKey=True\<close>.
\<close>

record 'k crypto_utils =
  unpack_data :: "pyval \<Rightarrow> pyval \<Rightarrow> exn + pystr"
  unpack_key :: "pyval \<Rightarrow> pyval \<Rightarrow> exn + 'k"
  verify_signature :: "'k \<Rightarrow> pyval \<Rightarrow> bytes \<Rightarrow> bool"
  pack_data :: "bytes \<Rightarrow> pyval \<times> pyval \<times> pyval"
  pack_data_unsigned :: "bytes \<Rightarrow> pyval \<times> pyval"
  get_ed_public_key :: bytes

text \<open>
  A datagram is identified with what \<open>pickle.loads\<close> makes of it: either \<open>recvfrom\<close>
  raises, or \<open>pickle.loads\<close> raises on the payload, or it returns an object. The byte
  format of \<open>pickle\<close> is not modelled.
\<close>

datatype received =
    RecvRaises exn
  | LoadsRaises exn
  | Loaded pyval

section \<open>The receive loop\<close>

record 'k state =
  known_peers :: "pystr \<rightharpoonup> 'k"
  console :: "out list"

definition print :: "out \<Rightarrow> 'k state \<Rightarrow> 'k state" where
  "print line s = s\<lparr>console := console s @ [line]\<rparr>"

text \<open>
  The elements that the unpacking assignment iterates over; \<open>None\<close> for an object that
  is not iterable.
\<close>

fun items :: "pyval \<Rightarrow> pyval list option" where
  "items (PTuple xs) = Some xs"
| "items (PList xs) = Some xs"
| "items (PStr s) = Some (map (\<lambda>c. PStr [c]) s)"
| "items (PBytes b) = Some (map (\<lambda>c. PInt (of_char c)) b)"
| "items _ = None"

text \<open>
  \<open>message_type, encrypted_message, nonce, signature, sig_nonce = ...\<close>: \<open>TypeError\<close> for
  an object that cannot be unpacked, \<open>ValueError\<close> for one that has not five elements.
\<close>

definition unpack5 :: "pyval \<Rightarrow> exn + (pyval \<times> pyval \<times> pyval \<times> pyval \<times> pyval)" where
  "unpack5 v =
     (case items v of
        None \<Rightarrow> Inl TypeError
      | Some [a, b, c, d, e] \<Rightarrow> Inr (a, b, c, d, e)
      | Some _ \<Rightarrow> Inl ValueError)"

text \<open>\<open>encrypted_message.decode('utf-8')\<close>: only a \<open>bytes\<close> object has the method.\<close>

fun decode_field :: "pyval \<Rightarrow> exn + pystr" where
  "decode_field (PBytes b) = utf8_decode b"
| "decode_field _ = Inl AttributeError"

text \<open>The branch \<open>message_type == "CHAT"\<close> (lines 60 to 77).\<close>

definition on_chat ::
  "'k crypto_utils \<Rightarrow> pystr \<Rightarrow> pyval \<Rightarrow> pyval \<Rightarrow> pyval \<Rightarrow> 'k state \<Rightarrow> exn + 'k state" where
  "on_chat cu username encrypted_message nonce signature s =
     (case unpack_data cu encrypted_message nonce of
        Inl e \<Rightarrow> Inl e
      | Inr raw_received_message \<Rightarrow>
          if \<not> prefix (username @ lit '': '') raw_received_message then
            (let sender_username = split_0 (lit '': '') raw_received_message in
             case known_peers s sender_username of
               None \<Rightarrow> Inr s
             | Some public_key \<Rightarrow>
                 (case utf8_encode raw_received_message of
                    Inl e \<Rightarrow> Inl e
                  | Inr message \<Rightarrow>
                      if verify_signature cu public_key signature message
                      then Inr (print (Print raw_received_message) s)
                      else Inr s))
          else Inr s)"

text \<open>The branch \<open>message_type == "JOIN"\<close> (lines 80 to 88).\<close>

definition on_join ::
  "'k crypto_utils \<Rightarrow> pyval \<Rightarrow> pyval \<Rightarrow> pyval \<Rightarrow> pyval \<Rightarrow> 'k state \<Rightarrow> exn + 'k state" where
  "on_join cu encrypted_message nonce signature sig_nonce s =
     (case unpack_data cu encrypted_message nonce of
        Inl e \<Rightarrow> Inl e
      | Inr new_username \<Rightarrow>
          (case unpack_key cu signature sig_nonce of
             Inl e \<Rightarrow> Inl e
           | Inr decrypted_public_key \<Rightarrow>
               if new_username \<notin> dom (known_peers s) then
                 Inr (print (Print (lit ''Welcome '' @ new_username @ lit '' to the chat!''))
                        (s\<lparr>known_peers := (known_peers s)(new_username \<mapsto> decrypted_public_key)\<rparr>))
               else Inr s))"

text \<open>The branch \<open>message_type == "LEAVE"\<close> (lines 91 to 101).\<close>

definition on_leave :: "pyval \<Rightarrow> 'k state \<Rightarrow> exn + 'k state" where
  "on_leave encrypted_message s =
     (case decode_field encrypted_message of
        Inl e \<Rightarrow> Inl e
      | Inr decrypted_username \<Rightarrow>
          (let s' = print (Print (decrypted_username @ lit '' has left the chat.'')) s in
           if decrypted_username \<in> dom (known_peers s')
           then Inr (s'\<lparr>known_peers := (known_peers s')(decrypted_username := None)\<rparr>)
           else Inr s'))"

text \<open>
  The body of the \<open>try\<close> statement, after \<open>recvfrom\<close> has returned: every path through it
  either raises or goes on to the next iteration.
\<close>

definition dispatch :: "'k crypto_utils \<Rightarrow> pystr \<Rightarrow> pyval \<Rightarrow> 'k state \<Rightarrow> exn + 'k state" where
  "dispatch cu username obj s =
     (case unpack5 obj of
        Inl e \<Rightarrow> Inl e
      | Inr (message_type, encrypted_message, nonce, signature, sig_nonce) \<Rightarrow>
          if message_type = PStr (lit ''CHAT'') then
            on_chat cu username encrypted_message nonce signature s
          else if message_type = PStr (lit ''JOIN'') then
            on_join cu encrypted_message nonce signature sig_nonce s
          else if message_type = PStr (lit ''LEAVE'') then
            on_leave encrypted_message s
          else Inr (print (PrintUnknownType message_type) s))"

definition try_body :: "'k crypto_utils \<Rightarrow> pystr \<Rightarrow> received \<Rightarrow> 'k state \<Rightarrow> exn + 'k state" where
  "try_body cu username r s =
     (case r of
        RecvRaises e \<Rightarrow> Inl e
      | LoadsRaises e \<Rightarrow> Inl e
      | Loaded obj \<Rightarrow> dispatch cu username obj s)"

datatype status = Running | Terminated

text \<open>
  One iteration of \<open>while True\<close> with its two handlers (lines 107 to 112). An \<open>OSError\<close> is
  swallowed, whatever its \<open>errno\<close>: the \<open>if\<close> of the first handler has \<open>pass\<close> as its only
  statement. Any other exception is logged and followed by \<open>break\<close>. No statement of the
  body that can raise comes after a \<open>print\<close> or an update of \<open>known_peers\<close>, so the state
  at a handler is the state before the iteration.
\<close>

definition listen_iteration ::
  "'k crypto_utils \<Rightarrow> pystr \<Rightarrow> received \<Rightarrow> 'k state \<Rightarrow> status \<times> 'k state" where
  "listen_iteration cu username r s =
     (case try_body cu username r s of
        Inr s' \<Rightarrow> (Running, s')
      | Inl e \<Rightarrow>
          if is_OSError e then (Running, s)
          else (Terminated, print (PrintErrorReceiving e) s))"

text \<open>
  The loop, run on the datagrams that arrive. \<open>Running\<close> with the list used up is the
  loop blocked in \<open>recvfrom\<close>; \<open>Terminated\<close> is the loop left through \<open>break\<close>.
\<close>

fun listen_for_messages ::
  "'k crypto_utils \<Rightarrow> pystr \<Rightarrow> received list \<Rightarrow> 'k state \<Rightarrow> status \<times> 'k state" where
  "listen_for_messages cu username [] s = (Running, s)"
| "listen_for_messages cu username (r # rs) s =
     (case listen_iteration cu username r s of
        (Terminated, s') \<Rightarrow> (Terminated, s')
      | (Running, s') \<Rightarrow> listen_for_messages cu username rs s')"

section \<open>The discovery loop and the send loop\<close>

text \<open>
  Both loops hand \<open>pickle.dumps\<close> of a 5-tuple to \<open>client_socket.sendto\<close>. A call of
  \<open>sendto\<close> is recorded as the tuple that was pickled; what the socket answers (\<open>None\<close>
  when the call returns, the exception when it raises) is an input of the iteration.
\<close>

datatype flow =
    Next
  | Break
  | Uncaught exn

record sending =
  flow :: flow
  printed :: "out list"
  sendto_calls :: "pyval list"

text \<open>
  One iteration of \<open>discovery_loop\<close> (lines 116 to 133), without the \<open>time.sleep(3)\<close>:
  every exception is logged and followed by \<open>break\<close>.
\<close>

definition discovery_iteration :: "'k crypto_utils \<Rightarrow> pystr \<Rightarrow> exn option \<Rightarrow> sending" where
  "discovery_iteration cu username sendto =
     (case utf8_encode username of
        Inl e \<Rightarrow> \<lparr>flow = Break, printed = [PrintErrorDiscovery e], sendto_calls = []\<rparr>
      | Inr name \<Rightarrow>
          (case pack_data_unsigned cu name of
             (encrypted_discovery_username, username_nonce) \<Rightarrow>
               (case pack_data_unsigned cu (get_ed_public_key cu) of
                  (encrypted_ed_public_key, public_key_nonce) \<Rightarrow>
                    (let payload = PTuple [PStr (lit ''JOIN''), encrypted_discovery_username,
                                           username_nonce, encrypted_ed_public_key,
                                           public_key_nonce]
                     in case sendto of
                          None \<Rightarrow> \<lparr>flow = Next, printed = [], sendto_calls = [payload]\<rparr>
                        | Some e \<Rightarrow>
                            \<lparr>flow = Break, printed = [PrintErrorDiscovery e],
                             sendto_calls = [payload]\<rparr>))))"

text \<open>
  \<open>str.lower()\<close>. An ASCII letter is mapped to its lower-case letter and any other ASCII
  character to itself. The mapping of the other code points is the Unicode table, which
  is a parameter \<open>ul\<close>: it gets the text before and after the code point as well, since
  the lower case of a capital sigma depends on its position in the word.
\<close>

fun lower_from :: "(pystr \<Rightarrow> pystr \<Rightarrow> nat \<Rightarrow> pystr) \<Rightarrow> pystr \<Rightarrow> pystr \<Rightarrow> pystr" where
  "lower_from ul before [] = []"
| "lower_from ul before (c # after) =
     (if c < 128 then [if 65 \<le> c \<and> c \<le> 90 then c + 32 else c] else ul before after c)
     @ lower_from ul (before @ [c]) after"

definition lower :: "(pystr \<Rightarrow> pystr \<Rightarrow> nat \<Rightarrow> pystr) \<Rightarrow> pystr \<Rightarrow> pystr" where
  "lower ul s = lower_from ul [] s"

text \<open>
  One iteration of the main loop (lines 146 to 167) on the line that \<open>input\<close> returned.
  \<open>NULL_BYTE\<close> is \<open>config.NULL_BYTE\<close>; \<open>config\<close> is not among the source files, so the
  constant is a parameter. Only \<open>socket.error\<close>, which is \<open>OSError\<close>, is handled around
  \<open>sendto\<close>; the enclosing \<open>try\<close> handles \<open>KeyboardInterrupt\<close> alone, so any other exception
  leaves the loop uncaught.
\<close>

definition send_iteration ::
  "(pystr \<Rightarrow> pystr \<Rightarrow> nat \<Rightarrow> pystr) \<Rightarrow> 'k crypto_utils \<Rightarrow> pyval \<Rightarrow> pystr \<Rightarrow> pystr \<Rightarrow> exn option
     \<Rightarrow> sending" where
  "send_iteration ul cu NULL_BYTE username raw_message sendto =
     (if lower ul raw_message = lit ''exit'' then
        \<lparr>flow = Break, printed = [Print (lit ''Exiting chat...'')], sendto_calls = []\<rparr>
      else
        (let raw_formatted_message = username @ lit '': '' @ raw_message in
         case utf8_encode raw_formatted_message of
           Inl e \<Rightarrow> \<lparr>flow = Uncaught e, printed = [], sendto_calls = []\<rparr>
         | Inr message \<Rightarrow>
             (case pack_data cu message of
                (encrypted_message, message_nonce, signature) \<Rightarrow>
                  (let payload = PTuple [PStr (lit ''CHAT''), encrypted_message, message_nonce,
                                         signature, NULL_BYTE]
                   in case sendto of
                        None \<Rightarrow> \<lparr>flow = Next, printed = [], sendto_calls = [payload]\<rparr>
                      | Some e \<Rightarrow>
                          if is_OSError e
                          then \<lparr>flow = Break, printed = [PrintErrorSending e],
                                sendto_calls = [payload]\<rparr>
                          else \<lparr>flow = Uncaught e, printed = [], sendto_calls = [payload]\<rparr>))))"

section \<open>Vocabulary of the properties\<close>

text \<open>The datagram that unpickles to the 5-tuple \<open>(message_type, f2, f3, f4, f5)\<close>.\<close>

definition envelope :: "string \<Rightarrow> pyval \<Rightarrow> pyval \<Rightarrow> pyval \<Rightarrow> pyval \<Rightarrow> received" where
  "envelope message_type f2 f3 f4 f5 = Loaded (PTuple [PStr (lit message_type), f2, f3, f4, f5])"

text \<open>
  The exception of a datagram that fails structural decoding: \<open>pickle.loads\<close> raises on
  it, or the object it yields cannot be unpacked into the five fields.
\<close>

fun codec_error :: "received \<Rightarrow> exn option" where
  "codec_error (RecvRaises e) = None"
| "codec_error (LoadsRaises e) = Some e"
| "codec_error (Loaded obj) = (case unpack5 obj of Inl e \<Rightarrow> Some e | Inr _ \<Rightarrow> None)"

text \<open>The username that a datagram announces, when it is a JOIN that decrypts.\<close>

definition join_name :: "'k crypto_utils \<Rightarrow> received \<Rightarrow> pystr option" where
  "join_name cu r =
     (case r of
        Loaded obj \<Rightarrow>
          (case unpack5 obj of
             Inr (message_type, encrypted_message, nonce, signature, sig_nonce) \<Rightarrow>
               if message_type = PStr (lit ''JOIN'') then
                 (case unpack_data cu encrypted_message nonce of
                    Inr new_username \<Rightarrow> Some new_username
                  | Inl _ \<Rightarrow> None)
               else None
           | Inl _ \<Rightarrow> None)
      | _ \<Rightarrow> None)"

text \<open>
  A provider that encrypts nothing, to run the model on concrete datagrams: the
  ciphertext is the plaintext, the nonce is empty, the key pair is the one byte \<open>K\<close> and
  the signature of a message is the key followed by the message.
\<close>

definition cleartext :: "bytes crypto_utils" where
  "cleartext =
     \<lparr>unpack_data = (\<lambda>c n. decode_field c),
      unpack_key = (\<lambda>c n. case c of PBytes b \<Rightarrow> Inr b | _ \<Rightarrow> Inl TypeError),
      verify_signature = (\<lambda>pk sg m. sg = PBytes (pk @ m)),
      pack_data = (\<lambda>m. (PBytes m, PBytes [], PBytes (''K'' @ m))),
      pack_data_unsigned = (\<lambda>m. (PBytes m, PBytes [])),
      get_ed_public_key = ''K''\<rparr>"

definition fresh :: "bytes state" where
  "fresh = \<lparr>known_peers = Map.empty, console = []\<rparr>"

text \<open>
  A case mapping that leaves every code point above ASCII as it is, to run \<open>lower\<close> on
  concrete lines.
\<close>

definition unmapped :: "pystr \<Rightarrow> pystr \<Rightarrow> nat \<Rightarrow> pystr" where
  "unmapped before after c = [c]"

section \<open>Evaluation lemmas\<close>

lemma lit_neq [simp]:
  "lit ''JOIN'' \<noteq> lit ''CHAT''" "lit ''LEAVE'' \<noteq> lit ''CHAT''" "lit ''LEAVE'' \<noteq> lit ''JOIN''"
  by (simp_all add: lit_def)

lemma cleartext_sel [simp]:
  "unpack_data cleartext = (\<lambda>c n. decode_field c)"
  "unpack_key cleartext = (\<lambda>c n. case c of PBytes b \<Rightarrow> Inr b | _ \<Rightarrow> Inl TypeError)"
  "verify_signature cleartext = (\<lambda>pk sg m. sg = PBytes (pk @ m))"
  "pack_data cleartext = (\<lambda>m. (PBytes m, PBytes [], PBytes (''K'' @ m)))"
  "pack_data_unsigned cleartext = (\<lambda>m. (PBytes m, PBytes []))"
  "get_ed_public_key cleartext = ''K''"
  by (simp_all add: cleartext_def)

lemma decode_samples [simp]:
  "utf8_decode ''alice'' = Inr (lit ''alice'')"
  "utf8_decode ''bob'' = Inr (lit ''bob'')"
  "utf8_decode ''bob: hi'' = Inr (lit ''bob: hi'')"
  by (simp_all add: utf8_decode_def lit_def)

lemma encode_samples [simp]:
  "utf8_encode (lit ''alice'') = Inr ''alice''"
  "utf8_encode (lit ''bob: hi'') = Inr ''bob: hi''"
  by code_simp+

lemma sample_texts [simp]:
  "utf8_decode ''hello'' = Inr (lit ''hello'')"
  "utf8_decode ''a: b: hello'' = Inr (lit ''a: b: hello'')"
  by (simp_all add: utf8_decode_def lit_def)

lemma sample_bytes [simp]:
  "utf8_encode (lit ''a: b: hello'') = Inr ''a: b: hello''"
  by code_simp

lemma lower_unmapped_samples:
  "lower unmapped [97, 57343] = [97, 57343]"
  by (simp add: lower_def unmapped_def)

lemma split_samples [simp]:
  "split_0 (lit '': '') (lit ''bob: hi'') = lit ''bob''"
  by (simp add: lit_def)

lemma lower_samples:
  "lower ul (lit ''exit'') = lit ''exit''"
  "lower ul (lit ''EXIT'') = lit ''exit''"
  "lower ul (lit ''Exit'') = lit ''exit''"
  "lower ul (lit ''exit now'') \<noteq> lit ''exit''"
  "lower ul (lit '' exit'') \<noteq> lit ''exit''"
  by (simp_all add: lower_def lit_def)

section \<open>One iteration of the receive loop, branch by branch\<close>

lemma dispatch_chat:
  "dispatch cu username (PTuple [PStr (lit ''CHAT''), f2, f3, f4, f5]) s
     = on_chat cu username f2 f3 f4 s"
  by (simp add: dispatch_def unpack5_def)

lemma dispatch_join:
  "dispatch cu username (PTuple [PStr (lit ''JOIN''), f2, f3, f4, f5]) s
     = on_join cu f2 f3 f4 f5 s"
  by (simp add: dispatch_def unpack5_def)

lemma dispatch_leave:
  "dispatch cu username (PTuple [PStr (lit ''LEAVE''), f2, f3, f4, f5]) s = on_leave f2 s"
  by (simp add: dispatch_def unpack5_def)

lemma iteration_loaded:
  "listen_iteration cu username (Loaded obj) s =
     (case dispatch cu username obj s of
        Inr s' \<Rightarrow> (Running, s')
      | Inl e \<Rightarrow>
          if is_OSError e then (Running, s)
          else (Terminated, print (PrintErrorReceiving e) s))"
  by (simp add: listen_iteration_def try_body_def)

lemma iteration_leave:
  assumes "decode_field f2 = Inr u"
  shows "listen_iteration cu username (envelope ''LEAVE'' f2 f3 f4 f5) s =
           (Running, \<lparr>known_peers = (known_peers s)(u := None),
                      console = console s @ [Print (u @ lit '' has left the chat.'')]\<rparr>)"
  using assms
  by (simp add: envelope_def iteration_loaded dispatch_leave on_leave_def print_def Let_def)

lemma iteration_join:
  assumes "unpack_data cu f2 f3 = Inr u" and "unpack_key cu f4 f5 = Inr k"
  shows "listen_iteration cu username (envelope ''JOIN'' f2 f3 f4 f5) s =
           (Running,
            if u \<in> dom (known_peers s) then s
            else \<lparr>known_peers = (known_peers s)(u \<mapsto> k),
                  console = console s @ [Print (lit ''Welcome '' @ u @ lit '' to the chat!'')]\<rparr>)"
  using assms
  by (simp add: envelope_def iteration_loaded dispatch_join on_join_def print_def)

lemma utf8_encode_error: "utf8_encode pt = Inl e \<Longrightarrow> e = UnicodeEncodeError"
  by (auto simp: utf8_encode_def split: option.splits)

lemma iteration_chat_full:
  assumes "unpack_data cu f2 f3 = Inr pt"
  shows "listen_iteration cu username (envelope ''CHAT'' f2 f3 f4 f5) s =
           (if prefix (username @ lit '': '') pt then (Running, s)
            else case known_peers s (split_0 (lit '': '') pt) of
                   None \<Rightarrow> (Running, s)
                 | Some pk \<Rightarrow>
                     (case utf8_encode pt of
                        Inl e \<Rightarrow> (Terminated, s\<lparr>console := console s @ [PrintErrorReceiving e]\<rparr>)
                      | Inr m \<Rightarrow>
                          (Running,
                           if verify_signature cu pk f4 m
                           then s\<lparr>console := console s @ [Print pt]\<rparr> else s)))"
  using assms
  by (auto simp: envelope_def iteration_loaded dispatch_chat on_chat_def print_def Let_def
           split: option.splits sum.splits dest: utf8_encode_error)

lemma chat_keeps_directory:
  "known_peers (snd (listen_iteration cu username (envelope ''CHAT'' f2 f3 f4 f5) s))
     = known_peers s"
  by (simp add: envelope_def iteration_loaded dispatch_chat on_chat_def print_def Let_def
           split: option.splits sum.splits)

text \<open>
  What belongs to the source in the wire format: the 5-tuple that the senders pickle is
  the one that the unpacking assignment of the receiver takes apart.
\<close>

lemma unpack5_tuple:
  "unpack5 (PTuple [message_type, f2, f3, f4, f5]) = Inr (message_type, f2, f3, f4, f5)"
  by (simp add: unpack5_def)

lemma iteration_oserror:
  "listen_iteration cu username (RecvRaises (OSError errno)) s = (Running, s)"
  by (simp add: listen_iteration_def try_body_def)

lemma unpack5_not_OSError: "unpack5 obj = Inl e \<Longrightarrow> \<not> is_OSError e"
  by (auto simp: unpack5_def split: option.splits list.splits)

lemma iteration_codec_error:
  assumes "codec_error r = Some e" and "\<not> is_OSError e"
  shows "listen_iteration cu username r s = (Terminated, print (PrintErrorReceiving e) s)"
  using assms
  by (cases r) (auto simp: listen_iteration_def try_body_def dispatch_def split: sum.splits)

lemma iteration_keeps_absent:
  assumes "known_peers s x = None" and "join_name cu r \<noteq> Some x"
  shows "known_peers (snd (listen_iteration cu username r s)) x = None"
  using assms
  by (cases r)
     (auto simp: listen_iteration_def try_body_def dispatch_def join_name_def on_chat_def
                 on_join_def on_leave_def print_def Let_def
           split: sum.splits option.splits if_splits prod.splits)

subsection \<open>The self-suppression test and the sender prefix\<close>

text \<open>
  The source tests \<open>startswith(username + ": ")\<close> and then takes \<open>split(": ")[0]\<close> as the
  sender: the text before the first separator, or the whole plaintext when it has no
  separator. For a username that does not contain the separator, the test holds exactly
  when the plaintext has a separator and the text before the first one is the username.
\<close>

lemma split_0_decompose:
  "sep \<noteq> [] \<Longrightarrow> sublist sep s \<Longrightarrow> \<exists>rest. s = split_0 sep s @ sep @ rest"
proof (induction s)
  case Nil
  then show ?case by simp
next
  case (Cons c cs)
  show ?case
  proof (cases "prefix sep (c # cs)")
    case True
    then show ?thesis by (auto simp: prefix_def)
  next
    case False
    with Cons.prems have "sublist sep cs"
      by (simp add: sublist_Cons_right)
    with Cons.IH Cons.prems(1) obtain rest where "cs = split_0 sep cs @ sep @ rest"
      by blast
    with False show ?thesis by auto
  qed
qed

lemma split_0_before_separator:
  "\<not> sublist [58, 32] u \<Longrightarrow> split_0 [58, 32] (u @ [58, 32] @ rest) = u"
proof (induction u)
  case Nil
  then show ?case by simp
next
  case (Cons a u)
  have "\<not> sublist [58, 32] u"
    using Cons.prems by (simp add: sublist_Cons_right)
  moreover have "\<not> prefix [58, 32] (a # u @ [58, 32] @ rest)"
    using Cons.prems by (cases u) (auto simp: sublist_Cons_right)
  ultimately show ?case
    using Cons.IH by simp
qed

lemma split_0_no_separator:
  "sep \<noteq> [] \<Longrightarrow> \<not> sublist sep s \<Longrightarrow> split_0 sep s = s"
  by (induction s) (auto simp: sublist_Cons_right)

lemma own_prefix_has_separator:
  "prefix (username @ sep) pt \<Longrightarrow> sublist sep pt"
  by (auto simp: prefix_def sublist_def)

lemma own_prefix_iff_sender:
  assumes "\<not> sublist (lit '': '') username"
  shows "prefix (username @ lit '': '') pt
           \<longleftrightarrow> sublist (lit '': '') pt \<and> split_0 (lit '': '') pt = username"
proof
  assume "prefix (username @ lit '': '') pt"
  then obtain rest where pt: "pt = username @ lit '': '' @ rest"
    by (auto simp: prefix_def)
  have sep: "lit '': '' = [58, 32]"
    by (simp add: lit_def)
  show "sublist (lit '': '') pt \<and> split_0 (lit '': '') pt = username"
    using assms split_0_before_separator [of username rest]
    unfolding pt sep by (auto simp: sublist_def)
next
  assume a: "sublist (lit '': '') pt \<and> split_0 (lit '': '') pt = username"
  have "lit '': '' \<noteq> []" by (simp add: lit_def)
  with a split_0_decompose [of "lit '': ''" pt]
  show "prefix (username @ lit '': '') pt"
    by (auto simp: prefix_def)
qed

section \<open>The claims\<close>

text \<open>
  C1, as the source has it. The claim says that a datagram that fails structural decoding
  is dropped and that the receive loop goes on. In the source every exception other than
  \<open>OSError\<close> reaches the second handler, which prints \<open>Error receiving message\<close> and
  executes \<open>break\<close>: the failing datagram is logged, the directory is left as it was,
  the loop ends and no later datagram is processed.
\<close>

theorem codec_error_ends_loop:
  assumes "codec_error r = Some e" and "\<not> is_OSError e"
  shows "listen_for_messages cu username (r # rs) s
           = (Terminated, s\<lparr>console := console s @ [PrintErrorReceiving e]\<rparr>)"
  by (simp add: iteration_codec_error [OF assms] print_def)

theorem codec_error_ends_loop_witness:
  "codec_error (Loaded (PTuple [PStr (lit ''JOIN''), PBytes ''bob''])) = Some ValueError
   \<and> \<not> is_OSError ValueError
   \<and> listen_for_messages cleartext (lit ''alice'')
       [Loaded (PTuple [PStr (lit ''JOIN''), PBytes ''bob'']),
        envelope ''JOIN'' (PBytes ''bob'') (PBytes []) (PBytes ''KB'') (PBytes [])] fresh
     = (Terminated, \<lparr>known_peers = Map.empty, console = [PrintErrorReceiving ValueError]\<rparr>)"
proof -
  have h: "codec_error (Loaded (PTuple [PStr (lit ''JOIN''), PBytes ''bob''])) = Some ValueError"
    by (simp add: unpack5_def)
  have n: "\<not> is_OSError ValueError"
    by simp
  show ?thesis
    using h n codec_error_ends_loop [OF h n, of cleartext "lit ''alice''"
        "[envelope ''JOIN'' (PBytes ''bob'') (PBytes []) (PBytes ''KB'') (PBytes [])]" fresh]
    by (simp add: fresh_def)
qed

text \<open>
  C1 as stated fails: a truncated pickle (\<open>pickle.loads\<close> raises \<open>EOFError\<close>), a tuple
  of two fields and an object that is not a tuple each end the loop, with a well-formed
  JOIN still waiting behind them.
\<close>

theorem codec_error_counterexample:
  "fst (listen_for_messages cleartext (lit ''alice'')
          [LoadsRaises (OtherException ''EOFError''),
           envelope ''JOIN'' (PBytes ''bob'') (PBytes []) (PBytes ''KB'') (PBytes [])] fresh)
     = Terminated
   \<and> fst (listen_for_messages cleartext (lit ''alice'')
          [Loaded (PTuple [PStr (lit ''JOIN''), PBytes ''bob'']),
           envelope ''JOIN'' (PBytes ''bob'') (PBytes []) (PBytes ''KB'') (PBytes [])] fresh)
     = Terminated
   \<and> fst (listen_for_messages cleartext (lit ''alice'')
          [Loaded (PInt 5),
           envelope ''JOIN'' (PBytes ''bob'') (PBytes []) (PBytes ''KB'') (PBytes [])] fresh)
     = Terminated"
  by (simp add: listen_iteration_def try_body_def dispatch_def unpack5_def)

text \<open>
  C2, as the source has it. The claim says that the directory never holds the local
  username. The JOIN branch compares the announced name with the keys of \<open>known_peers\<close>
  only, never with \<open>username\<close>, so the invariant holds for the sequences of datagrams
  that contain no JOIN announcing the local username: from a directory without the local
  username, whatever else arrives, the local username stays absent.
\<close>

theorem local_absent_without_own_join:
  assumes "known_peers s username = None"
    and "\<forall>r \<in> set rs. join_name cu r \<noteq> Some username"
  shows "known_peers (snd (listen_for_messages cu username rs s)) username = None"
  using assms
proof (induction rs arbitrary: s)
  case Nil
  then show ?case by simp
next
  case (Cons r rs)
  obtain st s' where it: "listen_iteration cu username r s = (st, s')"
    by (cases "listen_iteration cu username r s")
  have abs: "known_peers s' username = None"
    using iteration_keeps_absent [of s username cu r username] Cons.prems it by simp
  show ?case
  proof (cases st)
    case Running
    with it Cons.IH [OF abs] Cons.prems(2) show ?thesis by simp
  next
    case Terminated
    with it abs show ?thesis by simp
  qed
qed

theorem local_absent_without_own_join_witness:
  "known_peers fresh (lit ''alice'') = None
   \<and> join_name cleartext
         (envelope ''JOIN'' (PBytes ''bob'') (PBytes []) (PBytes ''KB'') (PBytes []))
       = Some (lit ''bob'')
   \<and> join_name cleartext
         (envelope ''CHAT'' (PBytes ''bob: hi'') (PBytes []) (PBytes ''KBbob: hi'') (PBytes []))
       = None
   \<and> join_name cleartext
         (envelope ''LEAVE'' (PBytes ''alice'') (PBytes []) (PBytes []) (PBytes []))
       = None
   \<and> known_peers (snd (listen_for_messages cleartext (lit ''alice'')
        [envelope ''JOIN'' (PBytes ''bob'') (PBytes []) (PBytes ''KB'') (PBytes []),
         envelope ''CHAT'' (PBytes ''bob: hi'') (PBytes []) (PBytes ''KBbob: hi'') (PBytes []),
         envelope ''LEAVE'' (PBytes ''alice'') (PBytes []) (PBytes []) (PBytes [])] fresh))
       (lit ''alice'') = None"
proof -
  have h1: "known_peers fresh (lit ''alice'') = None"
    by (simp add: fresh_def)
  have h2: "\<forall>r \<in> set [envelope ''JOIN'' (PBytes ''bob'') (PBytes []) (PBytes ''KB'') (PBytes []),
                   envelope ''CHAT'' (PBytes ''bob: hi'') (PBytes []) (PBytes ''KBbob: hi'')
                     (PBytes []),
                   envelope ''LEAVE'' (PBytes ''alice'') (PBytes []) (PBytes []) (PBytes [])].
         join_name cleartext r \<noteq> Some (lit ''alice'')"
    by (simp add: join_name_def envelope_def unpack5_def lit_def)
  have h3: "join_name cleartext
              (envelope ''JOIN'' (PBytes ''bob'') (PBytes []) (PBytes ''KB'') (PBytes []))
            = Some (lit ''bob'')"
    "join_name cleartext
       (envelope ''CHAT'' (PBytes ''bob: hi'') (PBytes []) (PBytes ''KBbob: hi'') (PBytes []))
     = None"
    "join_name cleartext
       (envelope ''LEAVE'' (PBytes ''alice'') (PBytes []) (PBytes []) (PBytes []))
     = None"
    by (simp_all add: join_name_def envelope_def unpack5_def lit_def)
  from local_absent_without_own_join [OF h1 h2] h1 h3 show ?thesis
    by blast
qed

text \<open>
  C2 as stated fails on the very case it names: the JOIN that the discovery loop of
  \<open>alice\<close> sends, delivered back to the receive loop of \<open>alice\<close>, puts \<open>alice\<close> into
  her own directory.
\<close>

theorem own_join_counterexample:
  "sendto_calls (discovery_iteration cleartext (lit ''alice'') None)
     = [PTuple [PStr (lit ''JOIN''), PBytes ''alice'', PBytes [], PBytes ''K'', PBytes []]]
   \<and> known_peers (snd (listen_for_messages cleartext (lit ''alice'')
        [Loaded (PTuple [PStr (lit ''JOIN''), PBytes ''alice'', PBytes [], PBytes ''K'', PBytes []])]
        fresh)) (lit ''alice'') = Some ''K''"
proof -
  have "listen_iteration cleartext (lit ''alice'')
          (envelope ''JOIN'' (PBytes ''alice'') (PBytes []) (PBytes ''K'') (PBytes [])) fresh
        = (Running, \<lparr>known_peers = [lit ''alice'' \<mapsto> ''K''],
                     console = [Print (lit ''Welcome '' @ lit ''alice'' @ lit '' to the chat!'')]\<rparr>)"
    by (simp add: iteration_join fresh_def)
  then show ?thesis
    by (simp add: discovery_iteration_def envelope_def)
qed

text \<open>
  C3, as the source has it. The claim compares the sender prefix of the plaintext with the
  local username; the source tests \<open>startswith(username + ": ")\<close> instead and takes the
  text before the first \<open>": "\<close> as the sender. The two agree when the local username
  contains no \<open>": "\<close> and the plaintext either has the form \<open>sender: body\<close> or has no
  separator and is not the local username itself (the whole plaintext is then the
  sender). For those, a CHAT whose ciphertext decrypts to the plaintext \<open>pt\<close> prints \<open>pt\<close>
  if and only if the sender is not the local username, the sender is in the directory
  and the signature verifies against the sender's stored key (which takes the UTF-8
  encoding of \<open>pt\<close>: when there is none, the error is logged and the loop ends); in every
  other case nothing is printed. Whatever the envelope holds, a CHAT never changes the
  directory.
\<close>

theorem chat_displayed_iff:
  "known_peers (snd (listen_iteration cu username (envelope ''CHAT'' f2 f3 f4 f5) s))
     = known_peers s
   \<and> (unpack_data cu f2 f3 = Inr pt \<longrightarrow>
        \<not> sublist (lit '': '') username \<longrightarrow>
        (pt = sender @ lit '': '' @ body \<and> \<not> sublist (lit '': '') sender
           \<or> sender = pt \<and> \<not> sublist (lit '': '') pt \<and> pt \<noteq> username) \<longrightarrow>
        listen_iteration cu username (envelope ''CHAT'' f2 f3 f4 f5) s =
          (if sender = username then (Running, s)
           else case known_peers s sender of
                  None \<Rightarrow> (Running, s)
                | Some pk \<Rightarrow>
                    (case utf8_encode pt of
                       Inl e \<Rightarrow> (Terminated, s\<lparr>console := console s @ [PrintErrorReceiving e]\<rparr>)
                     | Inr m \<Rightarrow>
                         (Running,
                          if verify_signature cu pk f4 m
                          then s\<lparr>console := console s @ [Print pt]\<rparr> else s))))"
proof (intro conjI impI)
  show "known_peers (snd (listen_iteration cu username (envelope ''CHAT'' f2 f3 f4 f5) s))
          = known_peers s"
    by (rule chat_keeps_directory)
next
  assume dec: "unpack_data cu f2 f3 = Inr pt"
    and un: "\<not> sublist (lit '': '') username"
    and form: "pt = sender @ lit '': '' @ body \<and> \<not> sublist (lit '': '') sender
           \<or> sender = pt \<and> \<not> sublist (lit '': '') pt \<and> pt \<noteq> username"
  have sep: "lit '': '' = [58, 32]"
    by (simp add: lit_def)
  from form have sp: "split_0 (lit '': '') pt = sender"
  proof
    assume "pt = sender @ lit '': '' @ body \<and> \<not> sublist (lit '': '') sender"
    then show ?thesis
      using split_0_before_separator [of sender body] by (simp add: sep)
  next
    assume "sender = pt \<and> \<not> sublist (lit '': '') pt \<and> pt \<noteq> username"
    then show ?thesis
      using split_0_no_separator [of "lit '': ''" pt] by (simp add: sep)
  qed
  from form have pre: "prefix (username @ lit '': '') pt \<longleftrightarrow> sender = username"
  proof
    assume a: "pt = sender @ lit '': '' @ body \<and> \<not> sublist (lit '': '') sender"
    then have "sublist (lit '': '') pt"
      by (auto simp: sublist_def)
    with own_prefix_iff_sender [OF un, of pt] sp show ?thesis
      by simp
  next
    assume a: "sender = pt \<and> \<not> sublist (lit '': '') pt \<and> pt \<noteq> username"
    with own_prefix_has_separator [of username "lit '': ''" pt] show ?thesis
      by auto
  qed
  show "listen_iteration cu username (envelope ''CHAT'' f2 f3 f4 f5) s =
          (if sender = username then (Running, s)
           else case known_peers s sender of
                  None \<Rightarrow> (Running, s)
                | Some pk \<Rightarrow>
                    (case utf8_encode pt of
                       Inl e \<Rightarrow> (Terminated, s\<lparr>console := console s @ [PrintErrorReceiving e]\<rparr>)
                     | Inr m \<Rightarrow>
                         (Running,
                          if verify_signature cu pk f4 m
                          then s\<lparr>console := console s @ [Print pt]\<rparr> else s)))"
    unfolding iteration_chat_full [OF dec] sp pre by simp
qed

theorem chat_displayed_iff_witness:
  "unpack_data cleartext (PBytes ''bob: hi'') (PBytes []) = Inr (lit ''bob: hi'')
   \<and> \<not> sublist (lit '': '') (lit ''alice'')
   \<and> lit ''bob'' @ lit '': '' @ lit ''hi'' = lit ''bob: hi''
   \<and> \<not> sublist (lit '': '') (lit ''bob'')
   \<and> listen_iteration cleartext (lit ''alice'')
        (envelope ''CHAT'' (PBytes ''bob: hi'') (PBytes []) (PBytes ''KBbob: hi'') (PBytes []))
        (fresh\<lparr>known_peers := [lit ''bob'' \<mapsto> ''KB'']\<rparr>)
      = (Running, \<lparr>known_peers = [lit ''bob'' \<mapsto> ''KB''], console = [Print (lit ''bob: hi'')]\<rparr>)
   \<and> listen_iteration cleartext (lit ''alice'')
        (envelope ''CHAT'' (PBytes ''bob: hi'') (PBytes []) (PBytes ''XXbob: hi'') (PBytes []))
        (fresh\<lparr>known_peers := [lit ''bob'' \<mapsto> ''KB'']\<rparr>)
      = (Running, \<lparr>known_peers = [lit ''bob'' \<mapsto> ''KB''], console = []\<rparr>)
   \<and> unpack_data cleartext (PBytes ''hello'') (PBytes []) = Inr (lit ''hello'')
   \<and> \<not> sublist (lit '': '') (lit ''hello'')
   \<and> lit ''hello'' \<noteq> lit ''alice''
   \<and> listen_iteration cleartext (lit ''alice'')
        (envelope ''CHAT'' (PBytes ''hello'') (PBytes []) (PBytes ''KBhello'') (PBytes []))
        (fresh\<lparr>known_peers := [lit ''bob'' \<mapsto> ''KB'']\<rparr>)
      = (Running, \<lparr>known_peers = [lit ''bob'' \<mapsto> ''KB''], console = []\<rparr>)"
proof -
  have d1: "unpack_data cleartext (PBytes ''bob: hi'') (PBytes []) = Inr (lit ''bob: hi'')"
    and d2: "unpack_data cleartext (PBytes ''hello'') (PBytes []) = Inr (lit ''hello'')"
    by simp_all
  have u: "\<not> sublist (lit '': '') (lit ''alice'')"
    and f1: "lit ''bob'' @ lit '': '' @ lit ''hi'' = lit ''bob: hi''"
    and f2: "\<not> sublist (lit '': '') (lit ''bob'')"
    and g1: "\<not> sublist (lit '': '') (lit ''hello'')"
    and g2: "lit ''hello'' \<noteq> lit ''alice''"
    and g3: "lit ''bob'' \<noteq> lit ''alice''" "lit ''hello'' \<noteq> lit ''bob''"
    by (simp_all add: lit_def sublist_Cons_right)
  show ?thesis
    using d1 d2 u f1 f2 g1 g2 g3
      chat_displayed_iff [where cu = cleartext and username = "lit ''alice''"
        and ?f2.0 = "PBytes ''bob: hi''" and ?f3.0 = "PBytes []"
        and ?f4.0 = "PBytes ''KBbob: hi''" and ?f5.0 = "PBytes []"
        and s = "fresh\<lparr>known_peers := [lit ''bob'' \<mapsto> ''KB'']\<rparr>"
        and pt = "lit ''bob: hi''" and sender = "lit ''bob''" and body = "lit ''hi''"]
      chat_displayed_iff [where cu = cleartext and username = "lit ''alice''"
        and ?f2.0 = "PBytes ''bob: hi''" and ?f3.0 = "PBytes []"
        and ?f4.0 = "PBytes ''XXbob: hi''" and ?f5.0 = "PBytes []"
        and s = "fresh\<lparr>known_peers := [lit ''bob'' \<mapsto> ''KB'']\<rparr>"
        and pt = "lit ''bob: hi''" and sender = "lit ''bob''" and body = "lit ''hi''"]
      chat_displayed_iff [where cu = cleartext and username = "lit ''alice''"
        and ?f2.0 = "PBytes ''hello''" and ?f3.0 = "PBytes []"
        and ?f4.0 = "PBytes ''KBhello''" and ?f5.0 = "PBytes []"
        and s = "fresh\<lparr>known_peers := [lit ''bob'' \<mapsto> ''KB'']\<rparr>"
        and pt = "lit ''hello''" and sender = "lit ''hello''" and body = "[]"]
    by (simp add: fresh_def)
qed

text \<open>
  C3 as stated fails where the test of the source and the sender prefix differ. For the
  local username \<open>a: b\<close>, the plaintext \<open>a: b: hello\<close> of the known peer \<open>a\<close>, correctly
  signed, has a sender prefix that is not the local username, and is not displayed. For
  the local username \<open>alice\<close>, stored in her own directory, the plaintext \<open>alice\<close> has the
  local username as its sender prefix, and is displayed.
\<close>

theorem chat_sender_counterexample:
  "unpack_data cleartext (PBytes ''a: b: hello'') (PBytes []) = Inr (lit ''a: b: hello'')
   \<and> split_0 (lit '': '') (lit ''a: b: hello'') = lit ''a''
   \<and> lit ''a'' \<noteq> lit ''a: b''
   \<and> known_peers (fresh\<lparr>known_peers := [lit ''a'' \<mapsto> ''KA'']\<rparr>) (lit ''a'') = Some ''KA''
   \<and> utf8_encode (lit ''a: b: hello'') = Inr ''a: b: hello''
   \<and> verify_signature cleartext ''KA'' (PBytes ''KAa: b: hello'') ''a: b: hello''
   \<and> console (snd (listen_iteration cleartext (lit ''a: b'')
        (envelope ''CHAT'' (PBytes ''a: b: hello'') (PBytes []) (PBytes ''KAa: b: hello'')
           (PBytes []))
        (fresh\<lparr>known_peers := [lit ''a'' \<mapsto> ''KA'']\<rparr>))) = []
   \<and> unpack_data cleartext (PBytes ''alice'') (PBytes []) = Inr (lit ''alice'')
   \<and> split_0 (lit '': '') (lit ''alice'') = lit ''alice''
   \<and> console (snd (listen_iteration cleartext (lit ''alice'')
        (envelope ''CHAT'' (PBytes ''alice'') (PBytes []) (PBytes ''Kalice'') (PBytes []))
        (fresh\<lparr>known_peers := [lit ''alice'' \<mapsto> ''K'']\<rparr>))) = [Print (lit ''alice'')]"
proof -
  have a: "prefix (lit ''a: b'' @ lit '': '') (lit ''a: b: hello'')"
    and b: "\<not> prefix (lit ''alice'' @ lit '': '') (lit ''alice'')"
    and c: "split_0 (lit '': '') (lit ''a: b: hello'') = lit ''a''"
      "split_0 (lit '': '') (lit ''alice'') = lit ''alice''"
      "lit ''a'' \<noteq> lit ''a: b''"
    by (simp_all add: lit_def)
  have d: "unpack_data cleartext (PBytes ''a: b: hello'') (PBytes []) = Inr (lit ''a: b: hello'')"
    and e: "unpack_data cleartext (PBytes ''alice'') (PBytes []) = Inr (lit ''alice'')"
    by simp_all
  show ?thesis
    using a b c d e
    by (simp add: iteration_chat_full [OF d] iteration_chat_full [OF e] fresh_def)
qed

text \<open>
  C4. After a JOIN that carries the username \<open>u\<close> and the key \<open>k\<close>, for \<open>u\<close> not yet in
  the directory, the directory maps \<open>u\<close> to \<open>k\<close>; and a second JOIN for \<open>u\<close> that carries
  another key \<open>k'\<close> leaves the entry of \<open>u\<close> as the first JOIN left it. This holds for
  every \<open>u\<close>, the local username included.
\<close>

theorem join_adds_then_keeps:
  assumes "unpack_data cu f2 f3 = Inr u" and "unpack_key cu f4 f5 = Inr k"
    and "unpack_data cu g2 g3 = Inr u" and "unpack_key cu g4 g5 = Inr k'"
  shows "(known_peers s u = None \<longrightarrow>
            known_peers (snd (listen_iteration cu username (envelope ''JOIN'' f2 f3 f4 f5) s)) u
              = Some k)
       \<and> known_peers (snd (listen_iteration cu username (envelope ''JOIN'' g2 g3 g4 g5)
            (snd (listen_iteration cu username (envelope ''JOIN'' f2 f3 f4 f5) s)))) u
         = known_peers (snd (listen_iteration cu username (envelope ''JOIN'' f2 f3 f4 f5) s)) u"
  by (auto simp: iteration_join [OF assms(1,2)] iteration_join [OF assms(3,4)] domIff)

theorem join_adds_then_keeps_witness:
  "unpack_data cleartext (PBytes ''bob'') (PBytes []) = Inr (lit ''bob'')
   \<and> unpack_key cleartext (PBytes ''KB'') (PBytes []) = Inr ''KB''
   \<and> unpack_key cleartext (PBytes ''XX'') (PBytes []) = Inr ''XX''
   \<and> known_peers fresh (lit ''bob'') = None
   \<and> known_peers (snd (listen_iteration cleartext (lit ''alice'')
         (envelope ''JOIN'' (PBytes ''bob'') (PBytes []) (PBytes ''KB'') (PBytes [])) fresh))
       (lit ''bob'') = Some ''KB''
   \<and> known_peers (snd (listen_iteration cleartext (lit ''alice'')
         (envelope ''JOIN'' (PBytes ''bob'') (PBytes []) (PBytes ''XX'') (PBytes []))
         (snd (listen_iteration cleartext (lit ''alice'')
            (envelope ''JOIN'' (PBytes ''bob'') (PBytes []) (PBytes ''KB'') (PBytes [])) fresh))))
       (lit ''bob'') = Some ''KB''"
  using join_adds_then_keeps [of cleartext "PBytes ''bob''" "PBytes []" "lit ''bob''"
          "PBytes ''KB''" "PBytes []" "''KB''" "PBytes ''bob''" "PBytes []"
          "PBytes ''XX''" "PBytes []" "''XX''" fresh "lit ''alice''"]
  by (simp add: fresh_def)

text \<open>
  C5. A LEAVE whose second field decodes to the username \<open>u\<close>: when \<open>u\<close> is in the
  directory, it is absent afterwards; when \<open>u\<close> is not in the directory, the directory
  is unchanged. The loop goes on in both cases.
\<close>

theorem leave_removes_peer:
  assumes "decode_field f2 = Inr u"
  shows "(u \<in> dom (known_peers s) \<longrightarrow>
            known_peers (snd (listen_iteration cu username (envelope ''LEAVE'' f2 f3 f4 f5) s)) u
              = None)
       \<and> (u \<notin> dom (known_peers s) \<longrightarrow>
            known_peers (snd (listen_iteration cu username (envelope ''LEAVE'' f2 f3 f4 f5) s))
              = known_peers s)
       \<and> fst (listen_iteration cu username (envelope ''LEAVE'' f2 f3 f4 f5) s) = Running"
  by (auto simp: iteration_leave [OF assms] domIff)

theorem leave_removes_peer_witness:
  "decode_field (PBytes ''bob'') = Inr (lit ''bob'')
   \<and> lit ''bob'' \<in> dom (known_peers (fresh\<lparr>known_peers := [lit ''bob'' \<mapsto> ''KB'']\<rparr>))
   \<and> known_peers (snd (listen_iteration cleartext (lit ''alice'')
        (envelope ''LEAVE'' (PBytes ''bob'') (PBytes []) (PBytes []) (PBytes []))
        (fresh\<lparr>known_peers := [lit ''bob'' \<mapsto> ''KB'']\<rparr>))) (lit ''bob'') = None
   \<and> lit ''bob'' \<notin> dom (known_peers fresh)
   \<and> known_peers (snd (listen_iteration cleartext (lit ''alice'')
        (envelope ''LEAVE'' (PBytes ''bob'') (PBytes []) (PBytes []) (PBytes [])) fresh))
      = known_peers fresh"
  using leave_removes_peer [of "PBytes ''bob''" "lit ''bob''"
          "fresh\<lparr>known_peers := [lit ''bob'' \<mapsto> ''KB'']\<rparr>"
          cleartext "lit ''alice''" "PBytes []" "PBytes []" "PBytes []"]
        leave_removes_peer [of "PBytes ''bob''" "lit ''bob''" fresh
          cleartext "lit ''alice''" "PBytes []" "PBytes []" "PBytes []"]
  by (simp add: fresh_def)

text \<open>
  C7, as the source has it. The claim says that the receive loop terminates when
  \<open>recvfrom\<close> fails on the closed socket. The first handler catches the \<open>OSError\<close> and,
  for \<open>EBADF\<close>, executes \<open>pass\<close>: nothing is printed, the state is unchanged and the
  loop goes on to the next \<open>recvfrom\<close>. However often \<open>recvfrom\<close> then fails with
  \<open>EBADF\<close>, the loop is still running.
\<close>

theorem closed_socket_is_ignored:
  "listen_for_messages cu username (RecvRaises (OSError (Some EBADF)) # rs) s
     = listen_for_messages cu username rs s
   \<and> listen_for_messages cu username (replicate n (RecvRaises (OSError (Some EBADF)))) s
     = (Running, s)"
proof
  show "listen_for_messages cu username (RecvRaises (OSError (Some EBADF)) # rs) s
          = listen_for_messages cu username rs s"
    by (simp add: iteration_oserror)
  show "listen_for_messages cu username (replicate n (RecvRaises (OSError (Some EBADF)))) s
          = (Running, s)"
    by (induction n) (simp_all add: iteration_oserror)
qed

text \<open>
  C7 as stated fails: after two \<open>EBADF\<close> failures of \<open>recvfrom\<close> the loop is still
  iterating and processes the datagram that follows.
\<close>

theorem closed_socket_counterexample:
  "listen_for_messages cleartext (lit ''alice'')
     [RecvRaises (OSError (Some EBADF)), RecvRaises (OSError (Some EBADF)),
      envelope ''JOIN'' (PBytes ''bob'') (PBytes []) (PBytes ''KB'') (PBytes [])] fresh
   = (Running, \<lparr>known_peers = [lit ''bob'' \<mapsto> ''KB''],
                console = [Print (lit ''Welcome bob to the chat!'')]\<rparr>)"
  by (simp add: iteration_oserror iteration_join fresh_def lit_def)

text \<open>
  C9. A LEAVE whose second field decodes to the username \<open>u\<close> prints
  \<open>u has left the chat.\<close> whether or not \<open>u\<close> is in the directory: the statement makes
  no assumption on the directory.
\<close>

theorem leave_always_prints:
  assumes "decode_field f2 = Inr u"
  shows "console (snd (listen_iteration cu username (envelope ''LEAVE'' f2 f3 f4 f5) s))
           = console s @ [Print (u @ lit '' has left the chat.'')]"
  by (simp add: iteration_leave [OF assms])

theorem leave_always_prints_witness:
  "decode_field (PBytes ''bob'') = Inr (lit ''bob'')
   \<and> known_peers fresh (lit ''bob'') = None
   \<and> console (snd (listen_iteration cleartext (lit ''alice'')
        (envelope ''LEAVE'' (PBytes ''bob'') (PBytes []) (PBytes []) (PBytes [])) fresh))
      = [Print (lit ''bob has left the chat.'')]"
  using leave_always_prints [of "PBytes ''bob''" "lit ''bob''" cleartext "lit ''alice''"
          "PBytes []" "PBytes []" "PBytes []" fresh]
  by (simp add: fresh_def lit_def)

text \<open>
  C10, as the source has it. The send loop compares the lower-cased line with \<open>"exit"\<close>:
  a line whose lower case is \<open>exit\<close> (such as \<open>EXIT\<close> and \<open>Exit\<close>) prints
  \<open>Exiting chat...\<close>, leaves the loop and hands nothing to \<open>sendto\<close>; any other line (such
  as \<open>exit now\<close>) whose text, prefixed with the username, can be encoded as UTF-8 is
  packed by \<open>pack_data\<close> and handed to \<open>sendto\<close> as a CHAT envelope.
\<close>

theorem exit_command_matching:
  "(lower ul raw_message = lit ''exit'' \<longrightarrow>
      send_iteration ul cu NULL_BYTE username raw_message sendto
        = \<lparr>flow = Break, printed = [Print (lit ''Exiting chat...'')], sendto_calls = []\<rparr>)
   \<and> (lower ul raw_message \<noteq> lit ''exit'' \<longrightarrow>
      utf8_encode (username @ lit '': '' @ raw_message) = Inr message \<longrightarrow>
      sendto_calls (send_iteration ul cu NULL_BYTE username raw_message sendto)
        = [PTuple [PStr (lit ''CHAT''), fst (pack_data cu message),
                   fst (snd (pack_data cu message)), snd (snd (pack_data cu message)),
                   NULL_BYTE]])
   \<and> lower ul (lit ''EXIT'') = lit ''exit''
   \<and> lower ul (lit ''Exit'') = lit ''exit''
   \<and> lower ul (lit ''exit now'') \<noteq> lit ''exit''"
  by (auto simp: send_iteration_def Let_def lower_samples split: prod.splits option.splits)

theorem exit_command_matching_witness:
  "lower unmapped (lit ''EXIT'') = lit ''exit''
   \<and> send_iteration unmapped cleartext (PBytes [CHR 0x00]) (lit ''alice'')
        (lit ''EXIT'') None
       = \<lparr>flow = Break, printed = [Print (lit ''Exiting chat...'')], sendto_calls = []\<rparr>
   \<and> lower unmapped (lit ''exit now'') \<noteq> lit ''exit''
   \<and> utf8_encode (lit ''alice'' @ lit '': '' @ lit ''exit now'') = Inr ''alice: exit now''
   \<and> sendto_calls (send_iteration unmapped cleartext (PBytes [CHR 0x00])
        (lit ''alice'') (lit ''exit now'') None)
       = [PTuple [PStr (lit ''CHAT''), PBytes ''alice: exit now'', PBytes [],
                  PBytes ''Kalice: exit now'', PBytes [CHR 0x00]]]"
proof -
  have e: "utf8_encode (lit ''alice'' @ lit '': '' @ lit ''exit now'') = Inr ''alice: exit now''"
    by code_simp
  show ?thesis
    using e lower_samples [of unmapped]
      exit_command_matching [where ul = unmapped and raw_message = "lit ''EXIT''"
        and cu = cleartext and NULL_BYTE = "PBytes [CHR 0x00]" and username = "lit ''alice''"
        and sendto = None]
      exit_command_matching [where ul = unmapped
        and raw_message = "lit ''exit now''"
        and cu = cleartext and NULL_BYTE = "PBytes [CHR 0x00]" and username = "lit ''alice''"
        and sendto = None and message = "''alice: exit now''"]
    by simp
qed

text \<open>
  C10 as stated fails on a line that is not the exit command and cannot be encoded: the
  line \<open>a\<close> followed by the lone surrogate \<open>U+DFFF\<close> is not sent, and the
  \<open>UnicodeEncodeError\<close> of \<open>encode\<close> leaves the loop uncaught.
\<close>

theorem surrogate_line_counterexample:
  "lower unmapped [97, 57343] \<noteq> lit ''exit''
   \<and> send_iteration unmapped cleartext (PBytes [CHR 0x00]) (lit ''alice'') [97, 57343] None
       = \<lparr>flow = Uncaught UnicodeEncodeError, printed = [], sendto_calls = []\<rparr>"
proof -
  have l: "lower unmapped [97, 57343] \<noteq> lit ''exit''"
    by (simp add: lower_unmapped_samples lit_def)
  have e: "utf8_encode (lit ''alice'' @ lit '': '' @ [97, 57343]) = Inl UnicodeEncodeError"
    by (simp add: utf8_encode_def encode_point_def lit_def)
  show ?thesis
    using l e by (simp add: send_iteration_def Let_def)
qed

end
